theory Spec2Isabelle
  imports Complex_Main
begin

section \<open>JavaScript numbers\<close>

text \<open>
  The three calculators of the PCB Thermal Toolkit compute with JavaScript Numbers.
  A Number is modelled with its special values as they are: \<open>NaN\<close>, the two
  infinities, and the two zeros (\<open>Fin 0\<close> is \<open>+0\<close>, \<open>NZero\<close> is \<open>-0\<close>). A finite
  nonzero Number is \<open>Fin r\<close> for a real \<open>r\<close>, and arithmetic on finite values is exact:
  rounding to the nearest double, overflow to an infinity and underflow to a zero are
  outside this model. Everything else follows ECMA-262: the sign rules,
  \<open>0 / 0\<close>, \<open>x / 0\<close>, \<open>\<infinity> * 0\<close>, \<open>\<infinity> - \<infinity>\<close>, the case table of \<open>Math.pow\<close> and the
  truthiness test behind \<open>||\<close>.
\<close>

datatype number = NaN | PInf | NInf | NZero | Fin real

fun signbit :: "number \<Rightarrow> bool" where
  "signbit NInf = True"
| "signbit NZero = True"
| "signbit (Fin r) = (r < 0)"
| "signbit PInf = False"
| "signbit NaN = False"

fun isInf :: "number \<Rightarrow> bool" where
  "isInf PInf = True"
| "isInf NInf = True"
| "isInf NZero = False"
| "isInf (Fin r) = False"
| "isInf NaN = False"

fun isZero :: "number \<Rightarrow> bool" where
  "isZero NZero = True"
| "isZero (Fin r) = (r = 0)"
| "isZero PInf = False"
| "isZero NInf = False"
| "isZero NaN = False"

text \<open>\<open>isFinite\<close> of JavaScript: neither \<open>NaN\<close> nor an infinity.\<close>

fun isFinite :: "number \<Rightarrow> bool" where
  "isFinite NZero = True"
| "isFinite (Fin r) = True"
| "isFinite PInf = False"
| "isFinite NInf = False"
| "isFinite NaN = False"

text \<open>The real value of a finite Number (both zeros are \<open>0\<close>).\<close>

fun mag :: "number \<Rightarrow> real" where
  "mag (Fin r) = r"
| "mag NZero = 0"
| "mag PInf = 0"
| "mag NInf = 0"
| "mag NaN = 0"

fun rv :: "number \<Rightarrow> real option" where
  "rv (Fin r) = Some r"
| "rv NZero = Some 0"
| "rv PInf = None"
| "rv NInf = None"
| "rv NaN = None"

definition signed_zero :: "bool \<Rightarrow> number" where
  "signed_zero s = (if s then NZero else Fin 0)"

definition signed_inf :: "bool \<Rightarrow> number" where
  "signed_inf s = (if s then NInf else PInf)"

text \<open>A finite result with sign \<open>s\<close>: the sign only shows when the value is zero.\<close>

definition mk :: "bool \<Rightarrow> real \<Rightarrow> number" where
  "mk s r = (if r = 0 then signed_zero s else Fin r)"

text \<open>\<open>a * b\<close> (Number::multiply).\<close>

definition jmul :: "number \<Rightarrow> number \<Rightarrow> number" where
  "jmul a b =
     (if a = NaN \<or> b = NaN then NaN
      else if isInf a \<or> isInf b then
        (if isZero a \<or> isZero b then NaN else signed_inf (signbit a \<noteq> signbit b))
      else mk (signbit a \<noteq> signbit b) (mag a * mag b))"

text \<open>\<open>a / b\<close> (Number::divide): no fault on a zero divisor.\<close>

definition jdiv :: "number \<Rightarrow> number \<Rightarrow> number" where
  "jdiv a b =
     (if a = NaN \<or> b = NaN then NaN
      else if isInf a then (if isInf b then NaN else signed_inf (signbit a \<noteq> signbit b))
      else if isInf b then signed_zero (signbit a \<noteq> signbit b)
      else if isZero b then (if isZero a then NaN else signed_inf (signbit a \<noteq> signbit b))
      else mk (signbit a \<noteq> signbit b) (mag a / mag b))"

text \<open>\<open>a + b\<close> (Number::add): a zero sum is \<open>+0\<close> unless both operands are \<open>-0\<close>.\<close>

definition jadd :: "number \<Rightarrow> number \<Rightarrow> number" where
  "jadd a b =
     (if a = NaN \<or> b = NaN then NaN
      else if isInf a then (if isInf b \<and> a \<noteq> b then NaN else a)
      else if isInf b then b
      else if a = NZero \<and> b = NZero then NZero
      else Fin (mag a + mag b))"

fun jneg :: "number \<Rightarrow> number" where
  "jneg NaN = NaN"
| "jneg PInf = NInf"
| "jneg NInf = PInf"
| "jneg NZero = Fin 0"
| "jneg (Fin r) = (if r = 0 then NZero else Fin (- r))"

text \<open>\<open>a - b\<close> (Number::subtract) is \<open>a + (-b)\<close>.\<close>

definition jsub :: "number \<Rightarrow> number \<Rightarrow> number" where
  "jsub a b = jadd a (jneg b)"

text \<open>ToBoolean on a Number: \<open>+0\<close>, \<open>-0\<close> and \<open>NaN\<close> are falsy.\<close>

definition truthy :: "number \<Rightarrow> bool" where
  "truthy a = (\<not> (a = NaN \<or> isZero a))"

text \<open>\<open>a || b\<close>: the left operand when it is truthy, the right one otherwise.\<close>

definition jor :: "number \<Rightarrow> number \<Rightarrow> number" where
  "jor a b = (if truthy a then a else b)"


text \<open>\<open>a === b\<close> on Numbers: \<open>NaN\<close> equals nothing, the two zeros are equal.\<close>

definition jeq :: "number \<Rightarrow> number \<Rightarrow> bool" where
  "jeq a b = (a \<noteq> NaN \<and> b \<noteq> NaN \<and> (a = b \<or> (isZero a \<and> isZero b)))"

definition odd_integral :: "real \<Rightarrow> bool" where
  "odd_integral e = (e = of_int \<lfloor>e\<rfloor> \<and> odd \<lfloor>e\<rfloor>)"

text \<open>
  The real power of step 13 of Number::exponentiate, for a finite nonzero base and a
  finite nonzero exponent that is integral when the base is negative.
\<close>

definition rpow :: "real \<Rightarrow> real \<Rightarrow> real" where
  "rpow b e = (if 0 < b then b powr e
               else if odd_integral e then - (\<bar>b\<bar> powr e) else \<bar>b\<bar> powr e)"

text \<open>\<open>Math.pow(base, exponent)\<close>, the cases in the order of Number::exponentiate.\<close>

definition jpow :: "number \<Rightarrow> number \<Rightarrow> number" where
  "jpow base exponent =
     (if exponent = NaN then NaN
      else if isZero exponent then Fin 1
      else if base = NaN then NaN
      else if base = PInf then (if \<not> signbit exponent then PInf else Fin 0)
      else if base = NInf then
        (if \<not> signbit exponent
         then (if odd_integral (mag exponent) \<and> isFinite exponent then NInf else PInf)
         else (if odd_integral (mag exponent) \<and> isFinite exponent then NZero else Fin 0))
      else if base = Fin 0 then (if \<not> signbit exponent then Fin 0 else PInf)
      else if base = NZero then
        (if \<not> signbit exponent
         then (if odd_integral (mag exponent) \<and> isFinite exponent then NZero else Fin 0)
         else (if odd_integral (mag exponent) \<and> isFinite exponent then NInf else PInf))
      else if exponent = PInf then
        (if 1 < \<bar>mag base\<bar> then PInf else if \<bar>mag base\<bar> = 1 then NaN else Fin 0)
      else if exponent = NInf then
        (if 1 < \<bar>mag base\<bar> then Fin 0 else if \<bar>mag base\<bar> = 1 then NaN else PInf)
      else if mag base < 0 \<and> mag exponent \<noteq> of_int \<lfloor>mag exponent\<rfloor> then NaN
      else Fin (rpow (mag base) (mag exponent)))"

section \<open>Helpers and constants of the toolkit\<close>

definition mmToMil :: "number \<Rightarrow> number" where
  "mmToMil mm = jdiv mm (Fin 0.0254)"

definition milToMm :: "number \<Rightarrow> number" where
  "milToMm mil = jmul mil (Fin 0.0254)"

definition ozToMm :: "number \<Rightarrow> number" where
  "ozToMm oz = jmul oz (Fin 0.0348)"

definition IPC_B :: number where "IPC_B = Fin 0.44"
definition IPC_C :: number where "IPC_C = Fin 0.725"
definition K_EXT :: number where "K_EXT = Fin 0.048"
definition K_INT :: number where "K_INT = Fin 0.024"

definition RHO_CU_20C :: number where "RHO_CU_20C = Fin (168 / 10 ^ 10)"
definition ALPHA_CU :: number where "ALPHA_CU = Fin 0.0039"
definition K_CU :: number where "K_CU = Fin 385"

text \<open>The literal \<open>1e-18\<close> that stands in for a falsy area.\<close>

definition area_floor :: number where "area_floor = Fin (1 / 10 ^ 18)"

definition Math_PI :: number where "Math_PI = Fin pi"

section \<open>1) IPC-2221 calculator\<close>

text \<open>The six state variables of \<open>Ipc2221Calculator\<close> and the object its memo returns.\<close>

record ipc_input =
  ipc_current :: number
  ipc_tempRise :: number
  ipc_layer :: string
  ipc_thicknessOz :: number
  ipc_length :: number
  ipc_ambient :: number

record ipc_results =
  ipc_width_mm :: number
  ipc_width_mil :: number
  ipc_area_mils2 :: number
  ipc_R20 :: number
  ipc_R_T :: number
  ipc_P20 :: number
  ipc_P_T :: number
  ipc_J :: number

definition Ipc2221_results :: "ipc_input \<Rightarrow> ipc_results" where
  "Ipc2221_results i =
     (let k = (if ipc_layer i = ''external'' then K_EXT else K_INT);
          area_mils2 = jpow (jdiv (ipc_current i) (jmul k (jpow (ipc_tempRise i) IPC_B)))
                            (jdiv (Fin 1) IPC_C);
          t_mm = ozToMm (ipc_thicknessOz i);
          width_mil = jdiv area_mils2 (jmul (ipc_thicknessOz i) (Fin 1.378));
          width_mm = milToMm width_mil;
          crossSection_m2 = jmul (jdiv t_mm (Fin 1000)) (jdiv width_mm (Fin 1000));
          length_m = jdiv (ipc_length i) (Fin 1000);
          R20 = jdiv (jmul length_m RHO_CU_20C) (jor crossSection_m2 area_floor);
          topTemp = jadd (ipc_ambient i) (ipc_tempRise i);
          R_T = jmul R20 (jadd (Fin 1) (jmul ALPHA_CU (jsub topTemp (Fin 20))));
          P20 = jmul (jmul (ipc_current i) (ipc_current i)) R20;
          P_T = jmul (jmul (ipc_current i) (ipc_current i)) R_T;
          J = jdiv (ipc_current i) (jor crossSection_m2 area_floor)
      in \<lparr> ipc_width_mm = width_mm, ipc_width_mil = width_mil, ipc_area_mils2 = area_mils2,
           ipc_R20 = R20, ipc_R_T = R_T, ipc_P20 = P20, ipc_P_T = P_T, ipc_J = J \<rparr>)"

text \<open>
  The local \<open>crossSection_m2\<close> of the factory is not part of the returned object; it is
  the product of the converted thickness and the returned width, each over 1000.
\<close>

definition ipc_crossSection_m2 :: "ipc_input \<Rightarrow> number" where
  "ipc_crossSection_m2 i =
     jmul (jdiv (ozToMm (ipc_thicknessOz i)) (Fin 1000))
          (jdiv (ipc_width_mm (Ipc2221_results i)) (Fin 1000))"

text \<open>The initial values of the \<open>useState\<close> calls.\<close>

definition ipc_default :: ipc_input where
  "ipc_default = \<lparr> ipc_current = Fin 30, ipc_tempRise = Fin 10, ipc_layer = ''external'',
                   ipc_thicknessOz = Fin 2, ipc_length = Fin 50, ipc_ambient = Fin 25 \<rparr>"

section \<open>2) Copper resistance against temperature\<close>

record cu_input =
  cu_rho20 :: number
  cu_alpha :: number
  cu_t1 :: number
  cu_t2 :: number
  cu_length :: number
  cu_width :: number
  cu_thickness :: number

record cu_results =
  cu_A :: number
  cu_L :: number
  cu_R1 :: number
  cu_R2 :: number

definition CopperTemp_res :: "cu_input \<Rightarrow> cu_results" where
  "CopperTemp_res i =
     (let A = jmul (jdiv (cu_width i) (Fin 1000)) (jdiv (cu_thickness i) (Fin 1000));
          L = jdiv (cu_length i) (Fin 1000);
          R1 = jdiv (jmul (jmul (cu_rho20 i)
                    (jadd (Fin 1) (jmul (cu_alpha i) (jsub (cu_t1 i) (Fin 20))))) L)
                    (jor A area_floor);
          R2 = jdiv (jmul (jmul (cu_rho20 i)
                    (jadd (Fin 1) (jmul (cu_alpha i) (jsub (cu_t2 i) (Fin 20))))) L)
                    (jor A area_floor)
      in \<lparr> cu_A = A, cu_L = L, cu_R1 = R1, cu_R2 = R2 \<rparr>)"

definition cu_default :: cu_input where
  "cu_default = \<lparr> cu_rho20 = RHO_CU_20C, cu_alpha = ALPHA_CU, cu_t1 = Fin 20, cu_t2 = Fin 80,
                  cu_length = Fin 100, cu_width = Fin 3, cu_thickness = Fin 0.070 \<rparr>"

section \<open>3) Thermal via array\<close>

record via_input =
  via_n :: number
  via_hole :: number
  via_plate :: number
  via_boardT :: number
  via_kCu :: number

record via_results =
  via_Do :: number
  via_Di :: number
  via_A_via_mm2 :: number
  via_A_total_m2 :: number
  via_Rth_cond :: number

definition ThermalVia_res :: "via_input \<Rightarrow> via_results" where
  "ThermalVia_res i =
     (let Do = jadd (via_hole i) (jmul (Fin 2) (via_plate i));
          Di = via_hole i;
          A_via_mm2 = jmul (jdiv Math_PI (Fin 4)) (jsub (jmul Do Do) (jmul Di Di));
          A_total_m2 = jmul (jmul A_via_mm2 (via_n i)) (Fin (1 / 10 ^ 6));
          L = jdiv (via_boardT i) (Fin 1000);
          Rth_cond = jdiv L (jmul (via_kCu i) (jor A_total_m2 area_floor))
      in \<lparr> via_Do = Do, via_Di = Di, via_A_via_mm2 = A_via_mm2,
           via_A_total_m2 = A_total_m2, via_Rth_cond = Rth_cond \<rparr>)"

definition via_default :: via_input where
  "via_default = \<lparr> via_n = Fin 16, via_hole = Fin 0.3, via_plate = Fin 0.025,
                   via_boardT = Fin 1.6, via_kCu = K_CU \<rparr>"

section \<open>Memoised rendering\<close>

text \<open>
  Each calculator wraps its computation in React's \<open>useMemo(calculateValue, deps)\<close>: the
  hook keeps the dependency list and the value of the last computation in a cell that
  outlives the render. On a render it compares the new list with the stored one, element
  by element with \<open>Object.is\<close> (which on Numbers and strings is equality of values, with
  \<open>NaN\<close> equal to itself and the two zeros distinct), returns the stored value when they
  agree and calls \<open>calculateValue\<close> otherwise. The cell is the only state a computation
  could depend on besides its input.
\<close>

type_synonym ('d, 'r) memo_cell = "('d \<times> 'r) option"

definition useMemo :: "(unit \<Rightarrow> 'r) \<Rightarrow> 'd \<Rightarrow> ('d, 'r) memo_cell \<Rightarrow> 'r \<times> ('d, 'r) memo_cell" where
  "useMemo calculateValue deps cell =
     (case cell of
        None \<Rightarrow> (calculateValue (), Some (deps, calculateValue ()))
      | Some (prev, cached) \<Rightarrow>
          if prev = deps then (cached, cell)
          else (calculateValue (), Some (deps, calculateValue ())))"

text \<open>
  A render of each component: the factory closes over the state variables of this render,
  the dependency list is the one written in the source.
\<close>

definition Ipc2221Calculator ::
  "ipc_input \<Rightarrow> (number \<times> number \<times> string \<times> number \<times> number \<times> number, ipc_results) memo_cell
     \<Rightarrow> ipc_results \<times> (number \<times> number \<times> string \<times> number \<times> number \<times> number, ipc_results) memo_cell" where
  "Ipc2221Calculator i cell =
     useMemo (\<lambda>_. Ipc2221_results i)
       (ipc_current i, ipc_tempRise i, ipc_layer i, ipc_thicknessOz i, ipc_length i, ipc_ambient i)
       cell"

definition CopperTempCalculator ::
  "cu_input \<Rightarrow> (number \<times> number \<times> number \<times> number \<times> number \<times> number \<times> number, cu_results) memo_cell
     \<Rightarrow> cu_results \<times> (number \<times> number \<times> number \<times> number \<times> number \<times> number \<times> number, cu_results) memo_cell" where
  "CopperTempCalculator i cell =
     useMemo (\<lambda>_. CopperTemp_res i)
       (cu_rho20 i, cu_alpha i, cu_t1 i, cu_t2 i, cu_length i, cu_width i, cu_thickness i)
       cell"

definition ThermalViaCalculator ::
  "via_input \<Rightarrow> (number \<times> number \<times> number \<times> number \<times> number, via_results) memo_cell
     \<Rightarrow> via_results \<times> (number \<times> number \<times> number \<times> number \<times> number, via_results) memo_cell" where
  "ThermalViaCalculator i cell =
     useMemo (\<lambda>_. ThermalVia_res i)
       (via_n i, via_hole i, via_plate i, via_boardT i, via_kCu i)
       cell"

text \<open>
  The results shown over a session: the component is rendered once for each state in the
  list, the cell being carried from one render to the next.
\<close>

fun renders :: "('s \<Rightarrow> 'c \<Rightarrow> 'r \<times> 'c) \<Rightarrow> 'c \<Rightarrow> 's list \<Rightarrow> 'r list" where
  "renders render cell [] = []"
| "renders render cell (s # ss) =
     (case render s cell of (r, cell') \<Rightarrow> r # renders render cell' ss)"

section \<open>Arithmetic on finite values\<close>

text \<open>
  On finite operands the operations are the ones of the reals, apart from the sign of a
  zero result and the division by a zero.
\<close>

lemma jmul_Fin_nonneg: "0 \<le> a \<Longrightarrow> 0 \<le> b \<Longrightarrow> jmul (Fin a) (Fin b) = Fin (a * b)"
  by (auto simp add: jmul_def mk_def signed_zero_def)

lemma jdiv_Fin_nonneg: "0 \<le> a \<Longrightarrow> 0 < b \<Longrightarrow> jdiv (Fin a) (Fin b) = Fin (a / b)"
  by (auto simp add: jdiv_def mk_def signed_zero_def)



lemma jadd_Fin: "jadd (Fin a) (Fin b) = Fin (a + b)"
  by (simp add: jadd_def)

lemma jsub_Fin: "jsub (Fin a) (Fin b) = Fin (a - b)"
  by (simp add: jsub_def jadd_def)

lemma jor_Fin: "jor (Fin a) b = (if a = 0 then b else Fin a)"
  by (simp add: jor_def truthy_def)



lemma rv_isFinite: "isFinite a \<longleftrightarrow> (\<exists>x. rv a = Some x)"
  by (cases a) auto







lemmas toolkit_defs = area_floor_def RHO_CU_20C_def ALPHA_CU_def K_CU_def IPC_B_def IPC_C_def
  K_EXT_def K_INT_def Math_PI_def mmToMil_def milToMm_def ozToMm_def

subsection \<open>The floor and finiteness\<close>



lemma jor_floor_ok: "jor a area_floor \<noteq> NaN \<and> \<not> isZero (jor a area_floor)"
  by (cases a) (auto simp add: jor_def truthy_def area_floor_def)




lemma isFinite_jdiv: "isFinite a \<Longrightarrow> d \<noteq> NaN \<Longrightarrow> \<not> isZero d \<Longrightarrow> isFinite (jdiv a d)"
  by (cases a; cases d) (auto simp add: jdiv_def mk_def signed_zero_def)





subsection \<open>The divisions of the three calculators\<close>


lemma ipc_J_eq:
  "ipc_J (Ipc2221_results i) = jdiv (ipc_current i) (jor (ipc_crossSection_m2 i) area_floor)"
  by (simp add: Ipc2221_results_def ipc_crossSection_m2_def Let_def)











lemma ipc_J_finite: "isFinite (ipc_current i) \<Longrightarrow> isFinite (ipc_J (Ipc2221_results i))"
  unfolding ipc_J_eq using jor_floor_ok [of "ipc_crossSection_m2 i"]
  by (intro isFinite_jdiv) simp_all








section \<open>Required area and width of a trace\<close>







section \<open>Resistance at two temperatures\<close>








section \<open>Monotonicity of the required width\<close>





section \<open>Equal temperatures give equal resistances\<close>

text \<open>
  C7. When \<open>t1\<close> and \<open>t2\<close> hold the same value, the resistance calculator returns the same
  value in \<open>R1\<close> and in \<open>R2\<close>; unless that value is \<open>NaN\<close>, the two also compare equal
  under \<open>===\<close>.
\<close>

theorem C7_equal_temps_equal_resistance:
  "cu_t1 i = cu_t2 i \<Longrightarrow>
     cu_R1 (CopperTemp_res i) = cu_R2 (CopperTemp_res i) \<and>
     (cu_R1 (CopperTemp_res i) \<noteq> NaN \<longrightarrow>
        jeq (cu_R1 (CopperTemp_res i)) (cu_R2 (CopperTemp_res i)))"
  by (simp add: CopperTemp_res_def Let_def jeq_def)

theorem C7_equal_temps_equal_resistance_witness:
  "cu_t1 (cu_default\<lparr>cu_t2 := Fin 20\<rparr>) = cu_t2 (cu_default\<lparr>cu_t2 := Fin 20\<rparr>)
   \<and> cu_R1 (CopperTemp_res (cu_default\<lparr>cu_t2 := Fin 20\<rparr>)) \<noteq> NaN
   \<and> cu_R1 (CopperTemp_res (cu_default\<lparr>cu_t2 := Fin 20\<rparr>))
       = cu_R2 (CopperTemp_res (cu_default\<lparr>cu_t2 := Fin 20\<rparr>))
   \<and> jeq (cu_R1 (CopperTemp_res (cu_default\<lparr>cu_t2 := Fin 20\<rparr>)))
          (cu_R2 (CopperTemp_res (cu_default\<lparr>cu_t2 := Fin 20\<rparr>)))"
proof -
  have t: "cu_t1 (cu_default\<lparr>cu_t2 := Fin 20\<rparr>) = cu_t2 (cu_default\<lparr>cu_t2 := Fin 20\<rparr>)"
    by (simp add: cu_default_def)
  have n: "cu_R1 (CopperTemp_res (cu_default\<lparr>cu_t2 := Fin 20\<rparr>)) \<noteq> NaN"
    by (simp add: CopperTemp_res_def Let_def cu_default_def toolkit_defs
        jmul_Fin_nonneg jdiv_Fin_nonneg jadd_Fin jsub_Fin jor_Fin)
  show ?thesis
    using t n C7_equal_temps_equal_resistance [OF t] by (simp add: jeq_def)
qed

section \<open>Thermal resistance of a via array\<close>









section \<open>Resistance, loss and current density of a trace\<close>












section \<open>The floor under a falsy area\<close>








section \<open>Divisors of the three calculators\<close>







section \<open>Results are functions of the input\<close>

lemma useMemo_consistent:
  assumes "cell = None \<or> (\<exists>j. cell = Some (deps j, f j))" and "inj deps"
  shows "fst (useMemo (\<lambda>_. f i) (deps i) cell) = f i
         \<and> (\<exists>j. snd (useMemo (\<lambda>_. f i) (deps i) cell) = Some (deps j, f j))"
  using assms by (auto simp add: useMemo_def inj_def split: option.splits)

lemma renders_consistent:
  assumes inj: "inj deps"
  shows "cell = None \<or> (\<exists>j. cell = Some (deps j, f j)) \<Longrightarrow>
         renders (\<lambda>i. useMemo (\<lambda>_. f i) (deps i)) cell ss = map f ss"
proof (induction ss arbitrary: cell)
  case Nil
  show ?case by simp
next
  case (Cons s ss)
  obtain r cell' where u: "useMemo (\<lambda>_. f s) (deps s) cell = (r, cell')"
    by (cases "useMemo (\<lambda>_. f s) (deps s) cell")
  from useMemo_consistent [OF Cons.prems inj, of s] u
  have r: "r = f s" and c: "\<exists>j. cell' = Some (deps j, f j)" by simp_all
  from c have "renders (\<lambda>i. useMemo (\<lambda>_. f i) (deps i)) cell' ss = map f ss"
    by (intro Cons.IH) simp
  with u r show ?case by simp
qed

lemma ipc_deps_inj:
  "inj (\<lambda>i::ipc_input. (ipc_current i, ipc_tempRise i, ipc_layer i, ipc_thicknessOz i, ipc_length i, ipc_ambient i))"
  by (rule injI) simp

lemma cu_deps_inj:
  "inj (\<lambda>i::cu_input. (cu_rho20 i, cu_alpha i, cu_t1 i, cu_t2 i, cu_length i, cu_width i, cu_thickness i))"
  by (rule injI) simp

lemma via_deps_inj:
  "inj (\<lambda>i::via_input. (via_n i, via_hole i, via_plate i, via_boardT i, via_kCu i))"
  by (rule injI) simp

text \<open>
  C8. Over any session of a calculator, started with an empty memo cell, the result of
  every render is the pure function of the state of that render: the cell never changes
  what is returned, so two renders with the same input return the same result, and a
  stored result is only ever replaced whole by a fresh computation.
\<close>

theorem C8_results_are_functions_of_input:
  "renders Ipc2221Calculator None is = map Ipc2221_results is
   \<and> renders CopperTempCalculator None cs = map CopperTemp_res cs
   \<and> renders ThermalViaCalculator None vs = map ThermalVia_res vs"
proof -
  have 1: "Ipc2221Calculator = (\<lambda>i. useMemo (\<lambda>_. Ipc2221_results i)
       (ipc_current i, ipc_tempRise i, ipc_layer i, ipc_thicknessOz i, ipc_length i, ipc_ambient i))"
    by (intro ext) (simp add: Ipc2221Calculator_def)
  have 2: "CopperTempCalculator = (\<lambda>i. useMemo (\<lambda>_. CopperTemp_res i)
       (cu_rho20 i, cu_alpha i, cu_t1 i, cu_t2 i, cu_length i, cu_width i, cu_thickness i))"
    by (intro ext) (simp add: CopperTempCalculator_def)
  have 3: "ThermalViaCalculator = (\<lambda>i. useMemo (\<lambda>_. ThermalVia_res i)
       (via_n i, via_hole i, via_plate i, via_boardT i, via_kCu i))"
    by (intro ext) (simp add: ThermalViaCalculator_def)
  show ?thesis
    unfolding 1 2 3
    using renders_consistent [OF ipc_deps_inj, of None Ipc2221_results "is"]
      renders_consistent [OF cu_deps_inj, of None CopperTemp_res cs]
      renders_consistent [OF via_deps_inj, of None ThermalVia_res vs]
    by simp
qed

theorem C8_results_are_functions_of_input_witness:
  "renders Ipc2221Calculator None
     [ipc_default, ipc_default\<lparr>ipc_current := Fin 40\<rparr>, ipc_default]
   = [Ipc2221_results ipc_default, Ipc2221_results (ipc_default\<lparr>ipc_current := Fin 40\<rparr>),
      Ipc2221_results ipc_default]
   \<and> renders CopperTempCalculator None [cu_default, cu_default]
       = [CopperTemp_res cu_default, CopperTemp_res cu_default]
   \<and> renders ThermalViaCalculator None [via_default, via_default\<lparr>via_n := Fin 0\<rparr>, via_default]
       = [ThermalVia_res via_default, ThermalVia_res (via_default\<lparr>via_n := Fin 0\<rparr>),
          ThermalVia_res via_default]"
  using C8_results_are_functions_of_input
    [of "[ipc_default, ipc_default\<lparr>ipc_current := Fin 40\<rparr>, ipc_default]"
        "[cu_default, cu_default]"
        "[via_default, via_default\<lparr>via_n := Fin 0\<rparr>, via_default]"]
  by simp

section \<open>Unit conversions\<close>

text \<open>
  With exact arithmetic \<open>mmToMil\<close> undoes \<open>milToMm\<close> on every Number, and dividing by
  \<open>0.0348\<close> undoes \<open>ozToMm\<close>. How far the rounded results of a double-precision
  multiplication and division lie from the original value is outside this model.
\<close>

lemma mil_round_trip_exact: "mmToMil (milToMm x) = x"
  by (cases x) (auto simp add: mmToMil_def milToMm_def jmul_def jdiv_def mk_def signed_zero_def
      signed_inf_def)

lemma oz_round_trip_exact: "jdiv (ozToMm x) (Fin 0.0348) = x"
  by (cases x) (auto simp add: ozToMm_def jmul_def jdiv_def mk_def signed_zero_def signed_inf_def)

end
